theory Spec2Isabelle
  imports Complex_Main "HOL-Library.AList"
begin

section \<open>Values and errors\<close>

text \<open>
  The model follows \<^verbatim>\<open>src/pyannote/audio/tasks/segmentation/mixins.py\<close>
  (class \<^verbatim>\<open>SegmentationTaskMixin\<close>).  Python floats are idealised as
  real numbers; where numpy would produce a non-finite float instead of raising,
  the model says so explicitly.  Every exception the source can raise is a value
  of type \<open>error\<close>, returned on the left of a sum.
\<close>

datatype error =
    NotImplementedError string
  | KeyError string
  | ValueError string
  | TypeError string
  | IndexError string
  | ZeroDivisionError
  | NonFiniteFloat

text \<open>
  \<open>NonFiniteFloat\<close> is not a Python exception: it marks the inputs on which numpy
  divides by a zero float, warns, and continues with \<open>inf\<close> or \<open>nan\<close>; what the
  source does with such a value afterwards (casting it to an integer, rounding
  it) is left outside the model.
\<close>

datatype scope = ScopeFile | ScopeDatabase | ScopeGlobal

datatype subset = Train | Development | Test

fun scope_name :: "scope \<Rightarrow> string" where
  "scope_name ScopeFile = ''file''"
| "scope_name ScopeDatabase = ''database''"
| "scope_name ScopeGlobal = ''global''"

fun subset_name :: "subset \<Rightarrow> string" where
  "subset_name Train = ''train''"
| "subset_name Development = ''development''"
| "subset_name Test = ''test''"

text \<open>\<^verbatim>\<open>Subsets = list(Subset.__args__)\<close> and \<^verbatim>\<open>Scopes = list(Scope.__args__)\<close>.\<close>

definition Subsets :: "string list" where
  "Subsets = [''train'', ''development'', ''test'']"

definition Scopes :: "string list" where
  "Scopes = [''file'', ''database'', ''global'']"

text \<open>
  \<^verbatim>\<open>list.index\<close>: the position of the first occurrence.  Python raises
  \<^verbatim>\<open>ValueError\<close> when the element is absent; every call of the source
  comes right after the element was inserted (or looks up one of the three
  literal names), so the model returns the length in that unreachable case.
\<close>

definition index :: "'a list \<Rightarrow> 'a \<Rightarrow> nat" where
  "index xs x = length (takeWhile (\<lambda>y. y \<noteq> x) xs)"

text \<open>\<^verbatim>\<open>if x not in xs: xs.append(x)\<close>\<close>

definition append_if_absent :: "'a list \<Rightarrow> 'a \<Rightarrow> 'a list" where
  "append_if_absent xs x = (if x \<in> set xs then xs else xs @ [x])"

section \<open>The corpus and the columnar index\<close>

text \<open>
  A \<^verbatim>\<open>Segment\<close> of pyannote.core; the source reads its three attributes
  \<^verbatim>\<open>start\<close>, \<^verbatim>\<open>end\<close> and \<^verbatim>\<open>duration\<close>.
\<close>

record segment =
  seg_start :: real
  seg_end :: real
  seg_duration :: real

datatype metaval = MStr string | MInt int | MFloat real | MOther

text \<open>
  One file of the protocol.  \<open>file_annotation\<close> lists what
  \<^verbatim>\<open>file["annotation"].itertracks(yield_label=True)\<close> yields (the track name
  is not read); \<open>file_extra\<close> holds the remaining items of the file in
  iteration order.  The audio path and \<^verbatim>\<open>torchaudio.info\<close> are only copied
  by the source and are left out.
\<close>

record protocol_file =
  file_subset :: subset
  file_scope :: scope
  file_annotated :: "segment list"
  file_annotation :: "(segment \<times> string) list"
  file_extra :: "(string \<times> metaval) list"

record annotated_region =
  ar_file_id :: nat
  ar_duration :: real
  ar_start :: real
  ar_end :: real

record annotation_row =
  an_file_id :: nat
  an_start :: real
  an_end :: real
  file_label_idx :: int
  database_label_idx :: int
  global_label_idx :: int

record chunk =
  ch_file_id :: nat
  ch_start :: real
  ch_duration :: real

text \<open>The attributes \<^verbatim>\<open>setup\<close> stores on \<^verbatim>\<open>self\<close>.\<close>

record task_state =
  metadata_unique_values :: "(string \<times> string list) list"
  metadata :: "int list list"
  annotated_duration :: "real list"
  annotated_regions :: "annotated_region list"
  annotations :: "annotation_row list"
  unique_labels :: "string list"
  validation_chunks :: "chunk list option"

section \<open>setup: metadata\<close>

text \<open>
  Keys the metadata loop skips.  \<^verbatim>\<open>subset\<close> and \<^verbatim>\<open>scope\<close> are
  added here because the model keeps them as fields of the file and encodes
  them before the other items.
\<close>

definition skipped_keys :: "string list" where
  "skipped_keys = [''audio'', ''torchaudio.info'', ''annotation'', ''annotated'', ''uri'',
     ''classes'', ''subset'', ''scope'']"

text \<open>\<^verbatim>\<open>metadata_unique_values[key]\<close> on a \<^verbatim>\<open>defaultdict(list)\<close>.\<close>

definition dd_get :: "(string \<times> string list) list \<Rightarrow> string \<Rightarrow> string list" where
  "dd_get muv key = (case map_of muv key of None \<Rightarrow> [] | Some vs \<Rightarrow> vs)"

fun encode_items ::
  "(string \<times> string list) list \<Rightarrow> (string \<times> int) list \<Rightarrow> (string \<times> metaval) list
   \<Rightarrow> error + ((string \<times> string list) list \<times> (string \<times> int) list)" where
  "encode_items muv md [] = Inr (muv, md)"
| "encode_items muv md ((key, v) # items) =
     (if key \<in> set skipped_keys then encode_items muv md items
      else case v of
        MStr s \<Rightarrow>
          (let vals = append_if_absent (dd_get muv key) s
           in encode_items (AList.update key vals muv)
                (AList.update key (int (index vals s)) md) items)
      | MInt i \<Rightarrow> encode_items muv (AList.update key i md) items
      | MFloat _ \<Rightarrow> encode_items muv md items
      | MOther \<Rightarrow> Inl (NotImplementedError key))"

text \<open>\<^verbatim>\<open>tuple(metadatum[key] for key in metadata_unique_values)\<close>\<close>

fun metadata_row :: "(string \<times> int) list \<Rightarrow> string list \<Rightarrow> error + int list" where
  "metadata_row md [] = Inr []"
| "metadata_row md (k # ks) =
     (case map_of md k of
        None \<Rightarrow> Inl (KeyError k)
      | Some v \<Rightarrow>
          (case metadata_row md ks of Inl e \<Rightarrow> Inl e | Inr vs \<Rightarrow> Inr (v # vs)))"

definition encode_metadata ::
  "(string \<times> string list) list \<Rightarrow> protocol_file
   \<Rightarrow> error + ((string \<times> string list) list \<times> int list)" where
  "encode_metadata muv file =
     (case encode_items muv
             [(''subset'', int (index Subsets (subset_name (file_subset file)))),
              (''scope'', int (index Scopes (scope_name (file_scope file))))]
             (file_extra file) of
        Inl e \<Rightarrow> Inl e
      | Inr (muv', md) \<Rightarrow>
          (case metadata_row md (map fst muv') of
             Inl e \<Rightarrow> Inl e
           | Inr row \<Rightarrow> Inr (muv', row)))"

section \<open>setup: annotated regions and annotations\<close>

text \<open>The loop over \<^verbatim>\<open>file["annotated"]\<close>, lines 173-193.\<close>

fun annotated_loop ::
  "real \<Rightarrow> nat \<Rightarrow> segment list \<Rightarrow> annotated_region list \<Rightarrow> real
   \<Rightarrow> annotated_region list \<times> real" where
  "annotated_loop duration file_id [] regions adur = (regions, adur)"
| "annotated_loop duration file_id (s # ss) regions adur =
     (if seg_duration s < duration then annotated_loop duration file_id ss regions adur
      else annotated_loop duration file_id ss
             (regions @ [\<lparr>ar_file_id = file_id, ar_duration = seg_duration s,
                          ar_start = seg_start s, ar_end = seg_end s\<rparr>])
             (adur + seg_duration s))"

text \<open>
  The loop over the annotations, lines 196-233.  \<open>ful\<close>, \<open>dul\<close> and \<open>ul\<close> are
  \<^verbatim>\<open>file_unique_labels\<close>, \<^verbatim>\<open>database_unique_labels\<close> and
  \<^verbatim>\<open>unique_labels\<close>; the result is the final \<^verbatim>\<open>unique_labels\<close> and
  the extended \<^verbatim>\<open>annotations\<close>.
\<close>

fun annotation_loop ::
  "scope \<Rightarrow> nat \<Rightarrow> (segment \<times> string) list \<Rightarrow> string list \<Rightarrow> string list \<Rightarrow> string list
   \<Rightarrow> annotation_row list \<Rightarrow> string list \<times> annotation_row list" where
  "annotation_loop sc file_id [] ful dul ul anns = (ul, anns)"
| "annotation_loop sc file_id ((s, label) # rest) ful dul ul anns =
     (let ful' = append_if_absent ful label;
          dul' = (if sc = ScopeDatabase then append_if_absent dul label else dul);
          ul' = (if sc = ScopeGlobal then append_if_absent ul label else ul)
      in annotation_loop sc file_id rest ful' dul' ul'
           (anns @ [\<lparr>an_file_id = file_id, an_start = seg_start s, an_end = seg_end s,
                     file_label_idx = int (index ful' label),
                     database_label_idx =
                       (if sc = ScopeDatabase then int (index dul' label) else - 1),
                     global_label_idx =
                       (if sc = ScopeGlobal then int (index ul' label) else - 1)\<rparr>]))"

text \<open>
  One iteration of \<^verbatim>\<open>for file_id, file in enumerate(files_iter)\<close>.  Both
  \<^verbatim>\<open>database_unique_labels\<close> and \<^verbatim>\<open>file_unique_labels\<close> are set to
  an empty list inside the loop body (lines 152 and 155), so the annotation loop
  starts from \<open>[]\<close> for both; \<^verbatim>\<open>unique_labels\<close> is created before the loop
  (line 102) and carried over.
\<close>

definition setup_file :: "real \<Rightarrow> task_state \<Rightarrow> nat \<Rightarrow> protocol_file \<Rightarrow> error + task_state" where
  "setup_file duration st file_id file =
     (case encode_metadata (metadata_unique_values st) file of
        Inl e \<Rightarrow> Inl e
      | Inr (muv', row) \<Rightarrow>
          (let (regions, adur) =
                 annotated_loop duration file_id (file_annotated file) (annotated_regions st) 0;
               (ul, anns) =
                 annotation_loop (file_scope file) file_id (file_annotation file) [] []
                   (unique_labels st) (annotations st)
           in Inr (st\<lparr>metadata_unique_values := muv',
                        metadata := metadata st @ [row],
                        annotated_duration := annotated_duration st @ [adur],
                        annotated_regions := regions,
                        annotations := anns,
                        unique_labels := ul\<rparr>)))"

fun setup_loop :: "real \<Rightarrow> nat \<Rightarrow> protocol_file list \<Rightarrow> task_state \<Rightarrow> error + task_state" where
  "setup_loop duration file_id [] st = Inr st"
| "setup_loop duration file_id (file # files) st =
     (case setup_file duration st file_id file of
        Inl e \<Rightarrow> Inl e
      | Inr st' \<Rightarrow> setup_loop duration (Suc file_id) files st')"

definition initial_state :: task_state where
  "initial_state =
     \<lparr>metadata_unique_values = [(''scope'', Scopes), (''subset'', Subsets)],
      metadata = [], annotated_duration = [], annotated_regions = [], annotations = [],
      unique_labels = [], validation_chunks = None\<rparr>"

text \<open>
  \<^verbatim>\<open>np.array(metadata, dtype=[(key, "i") for key in metadata_unique_values])\<close>:
  numpy refuses a tuple whose length is not the number of fields.
\<close>

definition check_metadata :: "task_state \<Rightarrow> error + task_state" where
  "check_metadata st =
     (if list_all (\<lambda>row. length row = length (metadata_unique_values st)) (metadata st)
      then Inr st
      else Inl (ValueError ''could not assign tuple to structure''))"

section \<open>setup: validation chunks\<close>

text \<open>\<^verbatim>\<open>self.metadata[key]\<close>: the column of a named field.\<close>

definition metadata_column :: "task_state \<Rightarrow> string \<Rightarrow> error + int list" where
  "metadata_column st key =
     (if key \<in> set (map fst (metadata_unique_values st))
      then Inr (map (\<lambda>row. row ! index (map fst (metadata_unique_values st)) key) (metadata st))
      else Inl (ValueError ''no field of name''))"

text \<open>\<^verbatim>\<open>np.where(msk)[0]\<close>\<close>

definition np_where :: "bool list \<Rightarrow> nat list" where
  "np_where msk = filter (\<lambda>i. msk ! i) [0..<length msk]"

text \<open>
  The two inner loops of lines 294-302 for one region:
  \<^verbatim>\<open>num_chunks = round(annotated_region["duration"] // duration)\<close>, then one
  chunk per \<^verbatim>\<open>c in range(num_chunks)\<close>.  With \<open>duration = 0\<close> the floor
  division is \<open>inf\<close> or \<open>nan\<close>.
\<close>

fun chunk_loop :: "nat \<Rightarrow> real \<Rightarrow> real \<Rightarrow> nat \<Rightarrow> nat \<Rightarrow> chunk list \<Rightarrow> chunk list" where
  "chunk_loop file_id start duration c 0 acc = acc"
| "chunk_loop file_id start duration c (Suc n) acc =
     chunk_loop file_id start duration (Suc c) n
       (acc @ [\<lparr>ch_file_id = file_id, ch_start = start + real c * duration,
                 ch_duration = duration\<rparr>])"

fun region_loop :: "real \<Rightarrow> nat \<Rightarrow> annotated_region list \<Rightarrow> chunk list \<Rightarrow> error + chunk list" where
  "region_loop duration file_id [] acc = Inr acc"
| "region_loop duration file_id (r # rs) acc =
     (if duration = 0 then Inl NonFiniteFloat
      else region_loop duration file_id rs
             (chunk_loop file_id (ar_start r) duration 0
                (nat \<lfloor>ar_duration r / duration\<rfloor>) acc))"

fun validation_loop ::
  "real \<Rightarrow> annotated_region list \<Rightarrow> nat list \<Rightarrow> chunk list \<Rightarrow> error + chunk list" where
  "validation_loop duration regions [] acc = Inr acc"
| "validation_loop duration regions (file_id # file_ids) acc =
     (case region_loop duration file_id
             (filter (\<lambda>r. ar_file_id r = file_id) regions) acc of
        Inl e \<Rightarrow> Inl e
      | Inr acc' \<Rightarrow> validation_loop duration regions file_ids acc')"

definition setup_validation :: "real \<Rightarrow> task_state \<Rightarrow> error + task_state" where
  "setup_validation duration st =
     (case metadata_column st ''subset'' of
        Inl e \<Rightarrow> Inl e
      | Inr col \<Rightarrow>
          (case validation_loop duration (annotated_regions st)
                  (np_where (map (\<lambda>v. v = int (index Subsets ''development'')) col)) [] of
             Inl e \<Rightarrow> Inl e
           | Inr chunks \<Rightarrow> Inr (st\<lparr>validation_chunks := Some chunks\<rparr>)))"

text \<open>
  The method \<^verbatim>\<open>setup\<close> (the name is reserved in Isabelle).  \<open>train\<close> and \<open>development\<close> are the files of
  \<^verbatim>\<open>self.protocol.train()\<close> and \<^verbatim>\<open>self.protocol.development()\<close>;
  \<open>duration\<close> is \<^verbatim>\<open>getattr(self, "duration", 0.0)\<close>.
\<close>

definition task_setup ::
  "bool \<Rightarrow> real \<Rightarrow> protocol_file list \<Rightarrow> protocol_file list \<Rightarrow> error + task_state" where
  "task_setup has_validation duration train development =
     (case setup_loop duration 0 (if has_validation then train @ development else train)
             initial_state of
        Inl e \<Rightarrow> Inl e
      | Inr st \<Rightarrow>
          (case check_metadata st of
             Inl e \<Rightarrow> Inl e
           | Inr st' \<Rightarrow> if has_validation then setup_validation duration st' else Inr st'))"

section \<open>prepare_chunk\<close>

text \<open>
  The target of a sample: the data of the \<^verbatim>\<open>SlidingWindowFeature\<close> (one row
  per frame, one column per chunk-local label) and its \<^verbatim>\<open>labels\<close>; the
  waveform \<^verbatim>\<open>X\<close> comes from the audio collaborator and is left out.
\<close>

record sample =
  y_data :: "nat list list"
  y_labels :: "int list"
  meta :: "(string \<times> int) list"












section \<open>collate_y\<close>

text \<open>\<^verbatim>\<open>sorted(set(itertools.chain(*(b["y"].labels for b in batch))))\<close>\<close>

definition common_labels :: "sample list \<Rightarrow> int list" where
  "common_labels batch = sort (remdups (concat (map y_labels batch)))"

text \<open>
  \<^verbatim>\<open>b["y"].data[:, local_idx]\<close>: numpy raises when the index is not a column
  of the array.
\<close>

definition column :: "nat list list \<Rightarrow> nat \<Rightarrow> error + nat list" where
  "column rows j =
     (if list_all (\<lambda>row. j < length row) rows then Inr (map (\<lambda>row. row ! j) rows)
      else Inl (IndexError ''index is out of bounds for axis 1''))"

text \<open>
  \<^verbatim>\<open>Y[i, :, global_idx] = col\<close> on the frames of sample \<open>i\<close>: the column is
  copied when it has one value per frame, broadcast when it has a single
  value, and refused otherwise.
\<close>

definition assign_column :: "nat list list \<Rightarrow> nat \<Rightarrow> nat list \<Rightarrow> error + nat list list" where
  "assign_column Yi global_idx col =
     (if length col = length Yi then Inr (map2 (\<lambda>row v. row[global_idx := v]) Yi col)
      else if length col = 1 then Inr (map (\<lambda>row. row[global_idx := col ! 0]) Yi)
      else Inl (ValueError ''could not broadcast input array''))"

text \<open>The loop over \<^verbatim>\<open>enumerate(b["y"].labels)\<close>, from local index \<open>local_idx\<close> on.\<close>

fun label_loop ::
  "int list \<Rightarrow> nat list list \<Rightarrow> nat \<Rightarrow> int list \<Rightarrow> nat list list \<Rightarrow> error + nat list list" where
  "label_loop labels data local_idx [] Yi = Inr Yi"
| "label_loop labels data local_idx (label # rest) Yi =
     (case column data local_idx of
        Inl e \<Rightarrow> Inl e
      | Inr col \<Rightarrow>
          (case assign_column Yi (index labels label) col of
             Inl e \<Rightarrow> Inl e
           | Inr Yi' \<Rightarrow> label_loop labels data (Suc local_idx) rest Yi'))"

text \<open>The loop over \<^verbatim>\<open>enumerate(batch)\<close>; each sample starts from its zero block of \<open>Y\<close>.\<close>

fun batch_loop :: "int list \<Rightarrow> nat \<Rightarrow> sample list \<Rightarrow> error + nat list list list" where
  "batch_loop labels num_frames [] = Inr []"
| "batch_loop labels num_frames (b # batch) =
     (case label_loop labels (y_data b) 0 (y_labels b)
             (replicate num_frames (replicate (length labels) 0)) of
        Inl e \<Rightarrow> Inl e
      | Inr Yi \<Rightarrow>
          (case batch_loop labels num_frames batch of
             Inl e \<Rightarrow> Inl e
           | Inr Y \<Rightarrow> Inr (Yi # Y)))"

text \<open>\<^verbatim>\<open>collate_y\<close>; \<^verbatim>\<open>batch[0]\<close> raises on an empty batch.\<close>

definition collate_y :: "sample list \<Rightarrow> error + nat list list list" where
  "collate_y batch =
     (case batch of
        [] \<Rightarrow> Inl (IndexError ''list index out of range'')
      | b0 # _ \<Rightarrow> batch_loop (common_labels batch) (length (y_data b0)) batch)"

section \<open>train__iter__helper\<close>

text \<open>
  A numpy float: dividing by a zero float does not raise, it gives \<open>nan\<close> for
  \<open>0 / 0\<close> and an infinity otherwise.
\<close>

datatype npfloat = Finite real | PosInf | NegInf | NaN

definition np_divide :: "real \<Rightarrow> real \<Rightarrow> npfloat" where
  "np_divide x y =
     (if y \<noteq> 0 then Finite (x / y)
      else if x = 0 then NaN else if 0 < x then PosInf else NegInf)"

fun is_negative :: "npfloat \<Rightarrow> bool" where
  "is_negative (Finite x) = (x < 0)"
| "is_negative NegInf = True"
| "is_negative PosInf = False"
| "is_negative NaN = False"

fun finite_value :: "npfloat \<Rightarrow> real" where
  "finite_value (Finite x) = x"
| "finite_value PosInf = 0"
| "finite_value NegInf = 0"
| "finite_value NaN = 0"

text \<open>
  The index \<^verbatim>\<open>cdf.searchsorted(u, side="right")\<close> for the cumulative sums of
  \<open>ps\<close>: the first position whose cumulative sum exceeds \<open>u\<close>.
\<close>

fun pick :: "real list \<Rightarrow> real \<Rightarrow> nat" where
  "pick [] u = 0"
| "pick (p # ps) u = (if u < p then 0 else Suc (pick ps (u - p)))"

text \<open>
  \<^verbatim>\<open>np.random.choice(a, p=p)\<close>, with the uniform sample \<open>u\<close> of \<open>[0, 1)\<close> it
  draws made explicit.  numpy checks, in this order, that \<open>a\<close> is not empty,
  that \<open>p\<close> has the size of \<open>a\<close>, that the sum of \<open>p\<close> is not \<open>nan\<close>, that no
  entry is negative and that the sum is 1 (up to a tolerance, idealised here),
  and raises \<^verbatim>\<open>ValueError\<close> otherwise.
\<close>

definition np_random_choice :: "nat list \<Rightarrow> npfloat list \<Rightarrow> real \<Rightarrow> error + nat" where
  "np_random_choice a p u =
     (if a = [] then Inl (ValueError ''a cannot be empty unless no samples are taken'')
      else if length p \<noteq> length a then Inl (ValueError ''a and p must have same size'')
      else if NaN \<in> set p \<or> (PosInf \<in> set p \<and> NegInf \<in> set p)
        then Inl (ValueError ''probabilities contain NaN'')
      else if list_ex is_negative p then Inl (ValueError ''probabilities are not non-negative'')
      else if PosInf \<in> set p \<or> sum_list (map finite_value p) \<noteq> 1
        then Inl (ValueError ''probabilities do not sum to 1'')
      else Inr (a ! pick (map finite_value p) u))"

text \<open>\<^verbatim>\<open>x / np.sum(x)\<close> for a vector of floats.\<close>

definition normalize :: "real list \<Rightarrow> npfloat list" where
  "normalize xs = map (\<lambda>x. np_divide x (sum_list xs)) xs"

text \<open>The loop \<^verbatim>\<open>for key, value in filters.items(): training &= self.metadata[key] == value\<close>.\<close>

fun filter_loop :: "task_state \<Rightarrow> (string \<times> int) list \<Rightarrow> bool list \<Rightarrow> error + bool list" where
  "filter_loop st [] training = Inr training"
| "filter_loop st ((key, v) # filters) training =
     (case metadata_column st key of
        Inl e \<Rightarrow> Inl e
      | Inr col \<Rightarrow> filter_loop st filters (map2 (\<and>) training (map (\<lambda>x. x = v) col)))"

text \<open>
  Lines 431-438, before the loop: the ids of the training files that match the
  filters, and their annotated durations turned into probabilities.
\<close>

definition helper_init :: "task_state \<Rightarrow> (string \<times> int) list \<Rightarrow> error + (nat list \<times> npfloat list)" where
  "helper_init st filters =
     (case metadata_column st ''subset'' of
        Inl e \<Rightarrow> Inl e
      | Inr col \<Rightarrow>
          (case filter_loop st filters (map (\<lambda>v. v = int (index Subsets ''train'')) col) of
             Inl e \<Rightarrow> Inl e
           | Inr training \<Rightarrow>
               (let file_ids = np_where training
                in Inr (file_ids, normalize (map (\<lambda>i. annotated_duration st ! i) file_ids)))))"

text \<open>Lines 453-460: the regions of the file and their durations as probabilities.\<close>

definition annotated_region_indices :: "task_state \<Rightarrow> nat \<Rightarrow> nat list" where
  "annotated_region_indices st file_id =
     np_where (map (\<lambda>r. ar_file_id r = file_id) (annotated_regions st))"

definition prob_annotated_regions_duration :: "task_state \<Rightarrow> nat \<Rightarrow> npfloat list" where
  "prob_annotated_regions_duration st file_id =
     normalize (map (\<lambda>i. ar_duration (annotated_regions st ! i))
       (annotated_region_indices st file_id))"

text \<open>\<^verbatim>\<open>rng.uniform(a, b)\<close> is \<open>a + (b - a) * random()\<close>, with \<open>random()\<close> in \<open>[0, 1)\<close>.\<close>

definition uniform :: "real \<Rightarrow> real \<Rightarrow> real \<Rightarrow> real" where
  "uniform a b u = a + (b - a) * u"

text \<open>
  One iteration of the inner \<^verbatim>\<open>for\<close> loop (lines 452-471), with its two
  random draws.  The source hands the chunk to \<^verbatim>\<open>prepare_chunk\<close>; the model
  yields the triple \<^verbatim>\<open>(file_id, start_time, duration)\<close>.
\<close>

definition helper_chunk :: "task_state \<Rightarrow> real \<Rightarrow> nat \<Rightarrow> real \<times> real \<Rightarrow> error + chunk" where
  "helper_chunk st duration file_id us =
     (case np_random_choice (annotated_region_indices st file_id)
             (prob_annotated_regions_duration st file_id) (fst us) of
        Inl e \<Rightarrow> Inl e
      | Inr i \<Rightarrow>
          (let r = annotated_regions st ! i
           in Inr \<lparr>ch_file_id = file_id,
                   ch_start = uniform (ar_start r) (ar_end r - duration) (snd us),
                   ch_duration = duration\<rparr>))"

text \<open>
  A generator is run on a finite tape of random draws; the result is the list
  of what it yielded and the exception that ended it, if any.  The inner loop
  takes one pair of draws per chunk of the file, \<^verbatim>\<open>num_chunks_per_file\<close> of
  them.
\<close>

fun chunks_loop ::
  "task_state \<Rightarrow> real \<Rightarrow> nat \<Rightarrow> (real \<times> real) list \<Rightarrow> chunk list \<times> error option" where
  "chunks_loop st duration file_id [] = ([], None)"
| "chunks_loop st duration file_id (us # rest) =
     (case helper_chunk st duration file_id us of
        Inl e \<Rightarrow> ([], Some e)
      | Inr c \<Rightarrow>
          (let (cs, e) = chunks_loop st duration file_id rest in (c # cs, e)))"

text \<open>The \<^verbatim>\<open>while True\<close> loop, one round per file draw of the tape.\<close>

fun rounds_loop ::
  "task_state \<Rightarrow> real \<Rightarrow> nat list \<Rightarrow> npfloat list \<Rightarrow> (real \<times> (real \<times> real) list) list
   \<Rightarrow> chunk list \<times> error option" where
  "rounds_loop st duration file_ids prob [] = ([], None)"
| "rounds_loop st duration file_ids prob ((u, us) # rounds) =
     (case np_random_choice file_ids prob u of
        Inl e \<Rightarrow> ([], Some e)
      | Inr file_id \<Rightarrow>
          (case chunks_loop st duration file_id us of
             (cs, Some e) \<Rightarrow> (cs, Some e)
           | (cs, None) \<Rightarrow>
               (let (cs', e) = rounds_loop st duration file_ids prob rounds
                in (cs @ cs', e))))"

text \<open>
  \<^verbatim>\<open>train__iter__helper\<close>.  Nothing of a generator runs before its first
  item is asked for, so an empty tape gives no chunk and no exception.
\<close>

definition train_iter_helper ::
  "task_state \<Rightarrow> real \<Rightarrow> (string \<times> int) list \<Rightarrow> (real \<times> (real \<times> real) list) list
   \<Rightarrow> chunk list \<times> error option" where
  "train_iter_helper st duration filters rounds =
     (if rounds = [] then ([], None)
      else case helper_init st filters of
             Inl e \<Rightarrow> ([], Some e)
           | Inr (file_ids, prob) \<Rightarrow> rounds_loop st duration file_ids prob rounds)"

section \<open>train__iter__\<close>

text \<open>The Python values that occur as keys of \<^verbatim>\<open>subchunks\<close>.\<close>

datatype pyval = PStr string | PInt int | PList "pyval list" | PTuple "pyval list"

text \<open>A list cannot be hashed, and a tuple only when all its items can.\<close>

fun hashable :: "pyval \<Rightarrow> bool" where
  "hashable (PStr s) = True"
| "hashable (PInt i) = True"
| "hashable (PList vs) = False"
| "hashable (PTuple vs) = list_all hashable vs"

text \<open>
  \<^verbatim>\<open>itertools.product(*pools)\<close>: the tuples with one item of each pool, the
  rightmost pool advancing first.
\<close>

fun itertools_product :: "'a list list \<Rightarrow> 'a list list" where
  "itertools_product [] = [[]]"
| "itertools_product (pool # pools) =
     concat (map (\<lambda>x. map (\<lambda>rest. x # rest) (itertools_product pools)) pool)"

text \<open>\<^verbatim>\<open>[self.metadata_unique_values[key] for key in balance]\<close>\<close>

definition balance_values :: "task_state \<Rightarrow> string list \<Rightarrow> pyval list" where
  "balance_values st balance =
     map (\<lambda>key. PList (map PStr (dd_get (metadata_unique_values st) key))) balance"

text \<open>
  The loop of lines 498-502.  The generator made by
  \<^verbatim>\<open>self.train__iter__helper(rng, **filters)\<close> has not run yet; it is
  represented by its filters.  Storing it under the key \<^verbatim>\<open>product\<close> hashes
  the tuple.
\<close>

fun subchunks_loop ::
  "string list \<Rightarrow> pyval list list \<Rightarrow> (pyval \<times> (string \<times> pyval) list) list
   \<Rightarrow> error + (pyval \<times> (string \<times> pyval) list) list" where
  "subchunks_loop balance [] subchunks = Inr subchunks"
| "subchunks_loop balance (product # products) subchunks =
     (let filters = zip balance product
      in if hashable (PTuple product)
         then subchunks_loop balance products (AList.update (PTuple product) filters subchunks)
         else Inl (TypeError ''unhashable type: list''))"

text \<open>
  \<^verbatim>\<open>train__iter__\<close>, run on a tape as above.  Without \<^verbatim>\<open>balance\<close> it
  passes on the chunks of the helper.  With \<^verbatim>\<open>balance\<close>,
  \<^verbatim>\<open>itertools.product\<close> is called with one argument, the list of the value
  lists; and \<^verbatim>\<open>rng.choice(subchunks)\<close> indexes the dictionary with a random
  integer below its size: \<^verbatim>\<open>IndexError\<close> when it is empty,
  \<^verbatim>\<open>KeyError\<close> otherwise, its keys being tuples.
\<close>

definition train_iter ::
  "task_state \<Rightarrow> real \<Rightarrow> string list option \<Rightarrow> (real \<times> (real \<times> real) list) list
   \<Rightarrow> chunk list \<times> error option" where
  "train_iter st duration balance rounds =
     (case balance of
        None \<Rightarrow> train_iter_helper st duration [] rounds
      | Some keys \<Rightarrow>
          if rounds = [] then ([], None)
          else
            (case subchunks_loop keys (itertools_product [balance_values st keys]) [] of
               Inl e \<Rightarrow> ([], Some e)
             | Inr subchunks \<Rightarrow>
                 if subchunks = []
                 then ([], Some (IndexError ''Cannot choose from an empty sequence''))
                 else ([], Some (KeyError ''int''))))"

section \<open>Reference functions of the statements\<close>



text \<open>The files \<^verbatim>\<open>setup\<close> iterates over.\<close>

definition files_iter :: "bool \<Rightarrow> protocol_file list \<Rightarrow> protocol_file list \<Rightarrow> protocol_file list" where
  "files_iter has_validation train development =
     (if has_validation then train @ development else train)"

text \<open>
  What the label indices of an annotation row must look like for a file of
  scope \<open>sc\<close>: the file index is set, the database index is set exactly for
  scope database, the global index exactly for scope global, and an index that
  is not set is the sentinel \<open>-1\<close>.
\<close>

definition scope_indices_ok :: "scope \<Rightarrow> annotation_row \<Rightarrow> bool" where
  "scope_indices_ok sc r =
     (0 \<le> file_label_idx r
      \<and> (0 \<le> database_label_idx r) = (sc = ScopeDatabase)
      \<and> (0 \<le> global_label_idx r) = (sc = ScopeGlobal)
      \<and> (if sc = ScopeDatabase then global_label_idx r = - 1
          else if sc = ScopeGlobal then database_label_idx r = - 1
          else database_label_idx r = - 1 \<and> global_label_idx r = - 1))"

text \<open>
  What holds of a row appended while file \<open>fid\<close> of scope \<open>sc\<close> is processed.  The
  last conjunct records that the database-scope list is restarted with every
  file, together with the file-scope list.
\<close>

definition row_of_file :: "scope \<Rightarrow> nat \<Rightarrow> annotation_row \<Rightarrow> bool" where
  "row_of_file sc fid r =
     (an_file_id r = fid \<and> scope_indices_ok sc r
      \<and> (sc = ScopeDatabase \<longrightarrow> database_label_idx r = file_label_idx r))"

text \<open>The row appended for one annotation, given the three label lists after their update.\<close>

definition new_row ::
  "scope \<Rightarrow> nat \<Rightarrow> segment \<Rightarrow> string \<Rightarrow> string list \<Rightarrow> string list \<Rightarrow> string list
   \<Rightarrow> annotation_row" where
  "new_row sc fid s label ful dul ul =
     \<lparr>an_file_id = fid, an_start = seg_start s, an_end = seg_end s,
      file_label_idx = int (index ful label),
      database_label_idx = (if sc = ScopeDatabase then int (index dul label) else - 1),
      global_label_idx = (if sc = ScopeGlobal then int (index ul label) else - 1)\<rparr>"

text \<open>
  The tiles of one region: \<open>floor (region_duration / duration)\<close> chunks, the
  \<open>k\<close>-th starting at \<open>region_start + k * duration\<close>.
\<close>

definition tiles :: "real \<Rightarrow> nat \<Rightarrow> real \<Rightarrow> real \<Rightarrow> chunk list" where
  "tiles duration file_id region_start region_duration =
     map (\<lambda>k. \<lparr>ch_file_id = file_id, ch_start = region_start + real k * duration,
                ch_duration = duration\<rparr>)
       [0..<nat \<lfloor>region_duration / duration\<rfloor>]"

text \<open>
  The field names of the metadata array start with \<^verbatim>\<open>scope\<close> and
  \<^verbatim>\<open>subset\<close>, the two keys present before the first file is read.
\<close>

definition keys_prefix :: "(string \<times> string list) list \<Rightarrow> bool" where
  "keys_prefix muv = (\<exists>rest. map fst muv = ''scope'' # ''subset'' # rest)"




text \<open>
  A sample as \<^verbatim>\<open>prepare_chunk\<close> produces them: \<open>num_frames\<close> rows, one
  column per label, no label twice.
\<close>

definition sample_ok :: "nat \<Rightarrow> sample \<Rightarrow> bool" where
  "sample_ok num_frames b =
     (length (y_data b) = num_frames
      \<and> list_all (\<lambda>row. length row = length (y_labels b)) (y_data b)
      \<and> distinct (y_labels b))"

text \<open>
  The block of sample \<open>b\<close> in the unified ordering: the column of a unified
  label is the sample's own column of that label, and zero when the sample does
  not have the label.
\<close>

definition remapped :: "int list \<Rightarrow> nat \<Rightarrow> sample \<Rightarrow> nat list list" where
  "remapped labels num_frames b =
     map (\<lambda>f. map (\<lambda>l. if l \<in> set (y_labels b)
                         then y_data b ! f ! index (y_labels b) l else 0) labels)
       [0..<num_frames]"

section \<open>Example corpora\<close>

text \<open>A training file with a 10 s region, a 1 s region and one metadata field.\<close>

definition file_two_regions :: protocol_file where
  "file_two_regions =
     \<lparr>file_subset = Train, file_scope = ScopeFile,
      file_annotated = [\<lparr>seg_start = 0, seg_end = 10, seg_duration = 10\<rparr>,
                        \<lparr>seg_start = 12, seg_end = 13, seg_duration = 1\<rparr>],
      file_annotation = [], file_extra = [(''domain'', MStr ''tv'')]\<rparr>"

text \<open>
  Two files of scope database that share the label \<open>spk2\<close>: the first also has
  \<open>spk1\<close>, seen before \<open>spk2\<close>.
\<close>

definition file_spk1_spk2 :: protocol_file where
  "file_spk1_spk2 =
     \<lparr>file_subset = Train, file_scope = ScopeDatabase,
      file_annotated = [\<lparr>seg_start = 0, seg_end = 10, seg_duration = 10\<rparr>],
      file_annotation = [(\<lparr>seg_start = 2, seg_end = 5, seg_duration = 3\<rparr>, ''spk1''),
                         (\<lparr>seg_start = 5, seg_end = 6, seg_duration = 1\<rparr>, ''spk2'')],
      file_extra = []\<rparr>"

definition file_spk2 :: protocol_file where
  "file_spk2 =
     \<lparr>file_subset = Train, file_scope = ScopeDatabase,
      file_annotated = [\<lparr>seg_start = 0, seg_end = 10, seg_duration = 10\<rparr>],
      file_annotation = [(\<lparr>seg_start = 1, seg_end = 9, seg_duration = 8\<rparr>, ''spk2'')],
      file_extra = []\<rparr>"


text \<open>The state \<^verbatim>\<open>setup\<close> builds from the two database-scope files, for a 4 s chunk.\<close>

definition state_two_files :: task_state where
  "state_two_files =
     \<lparr>metadata_unique_values = [(''scope'', Scopes), (''subset'', Subsets)],
      metadata = [[1, 0], [1, 0]], annotated_duration = [10, 10],
      annotated_regions =
        [\<lparr>ar_file_id = 0, ar_duration = 10, ar_start = 0, ar_end = 10\<rparr>,
         \<lparr>ar_file_id = 1, ar_duration = 10, ar_start = 0, ar_end = 10\<rparr>],
      annotations =
        [\<lparr>an_file_id = 0, an_start = 2, an_end = 5, file_label_idx = 0,
           database_label_idx = 0, global_label_idx = - 1\<rparr>,
         \<lparr>an_file_id = 0, an_start = 5, an_end = 6, file_label_idx = 1,
           database_label_idx = 1, global_label_idx = - 1\<rparr>,
         \<lparr>an_file_id = 1, an_start = 1, an_end = 9, file_label_idx = 0,
           database_label_idx = 0, global_label_idx = - 1\<rparr>],
      unique_labels = [], validation_chunks = None\<rparr>"

text \<open>Two samples of two frames with the disjoint label sets \<open>{3}\<close> and \<open>{7}\<close>.\<close>

definition sample_A :: sample where
  "sample_A = \<lparr>y_data = [[1], [0]], y_labels = [3], meta = []\<rparr>"

definition sample_B :: sample where
  "sample_B = \<lparr>y_data = [[0], [1]], y_labels = [7], meta = []\<rparr>"


definition file_radio :: protocol_file where
  "file_radio =
     \<lparr>file_subset = Train, file_scope = ScopeFile,
      file_annotated = [\<lparr>seg_start = 0, seg_end = 20, seg_duration = 20\<rparr>],
      file_annotation = [], file_extra = [(''domain'', MStr ''radio'')]\<rparr>"



definition state_domains :: task_state where
  "state_domains =
     \<lparr>metadata_unique_values =
        [(''scope'', Scopes), (''subset'', Subsets), (''domain'', [''tv'', ''radio''])],
      metadata = [[0, 0, 0], [0, 0, 1]], annotated_duration = [10, 20],
      annotated_regions =
        [\<lparr>ar_file_id = 0, ar_duration = 10, ar_start = 0, ar_end = 10\<rparr>,
         \<lparr>ar_file_id = 1, ar_duration = 20, ar_start = 0, ar_end = 20\<rparr>],
      annotations = [], unique_labels = [], validation_chunks = None\<rparr>"

section \<open>Properties of setup: annotated regions\<close>

lemma index_append_if_absent: "index (append_if_absent xs x) x < length (append_if_absent xs x)"
  by (induction xs) (auto simp: index_def append_if_absent_def)




lemma check_metadata_id: "check_metadata st = Inr st' \<Longrightarrow> st' = st"
  by (auto simp: check_metadata_def split: if_splits)

lemma setup_validation_fields:
  assumes "setup_validation d st = Inr st'"
  shows "annotated_regions st' = annotated_regions st"
    and "annotated_duration st' = annotated_duration st"
    and "annotations st' = annotations st"
    and "metadata st' = metadata st"
    and "metadata_unique_values st' = metadata_unique_values st"
  using assms by (auto simp: setup_validation_def split: sum.splits)

text \<open>The loop that built the final state, whatever came after it.\<close>

lemma task_setup_loop:
  assumes "task_setup has_validation d train development = Inr st"
  obtains st0 where
    "setup_loop d 0 (files_iter has_validation train development) initial_state = Inr st0"
    "check_metadata st0 = Inr st0"
    "if has_validation then setup_validation d st0 = Inr st else st = st0"
  using assms
  by (auto simp: task_setup_def files_iter_def split: sum.splits if_splits
      dest: check_metadata_id)


lemmas eval_setup =
  task_setup_def setup_file_def encode_metadata_def initial_state_def check_metadata_def
  skipped_keys_def Scopes_def Subsets_def index_def append_if_absent_def dd_get_def
  setup_validation_def metadata_column_def np_where_def


section \<open>Properties of setup: label indices\<close>

lemma new_row_ok:
  "sc = ScopeDatabase \<longrightarrow> dul = ful \<Longrightarrow> row_of_file sc fid (new_row sc fid s label ful dul ul)"
  by (cases sc) (simp_all add: new_row_def scope_indices_ok_def row_of_file_def)

lemma annotation_loop_rows:
  "sc = ScopeDatabase \<longrightarrow> dul = ful \<Longrightarrow>
   \<exists>new. snd (annotation_loop sc fid xs ful dul ul anns) = anns @ new
     \<and> length new = length xs
     \<and> list_all (row_of_file sc fid) new"
proof (induction xs arbitrary: ful dul ul anns)
  case Nil
  then show ?case by simp
next
  case (Cons x xs)
  note same = Cons.prems
  obtain s label where x: "x = (s, label)" by (cases x)
  let ?ful = "append_if_absent ful label"
  let ?dul = "if sc = ScopeDatabase then append_if_absent dul label else dul"
  let ?ul = "if sc = ScopeGlobal then append_if_absent ul label else ul"
  let ?row = "new_row sc fid s label ?ful ?dul ?ul"
  have step: "annotation_loop sc fid (x # xs) ful dul ul anns =
      annotation_loop sc fid xs ?ful ?dul ?ul (anns @ [?row])"
    by (simp add: x Let_def new_row_def)
  have same': "sc = ScopeDatabase \<longrightarrow> ?dul = ?ful" using same by simp
  from Cons.IH[of ?dul ?ful ?ul "anns @ [?row]", OF same'] obtain new where
    n: "snd (annotation_loop sc fid xs ?ful ?dul ?ul (anns @ [?row])) = (anns @ [?row]) @ new"
      "length new = length xs"
      "list_all (row_of_file sc fid) new"
    by blast
  have "snd (annotation_loop sc fid (x # xs) ful dul ul anns) = anns @ (?row # new)"
    unfolding step n(1) by simp
  moreover have "length (?row # new) = length (x # xs)" using n(2) by simp
  moreover have "list_all (row_of_file sc fid) (?row # new)"
    using n(3) new_row_ok[of sc ?dul ?ful fid s label ?ul, OF same'] by simp
  ultimately show ?case by blast
qed

lemma setup_file_annotations:
  assumes "setup_file d st fid f = Inr st'"
  shows "\<exists>new. annotations st' = annotations st @ new
     \<and> length new = length (file_annotation f)
     \<and> list_all (row_of_file (file_scope f) fid) new"
proof -
  obtain ul anns where a: "annotation_loop (file_scope f) fid (file_annotation f) [] []
                   (unique_labels st) (annotations st) = (ul, anns)" by (cases "annotation_loop (file_scope f) fid (file_annotation f) [] []
                   (unique_labels st) (annotations st)")
  with assms have "annotations st' = anns"
    by (auto simp: setup_file_def split: sum.splits prod.splits)
  with a annotation_loop_rows[of "file_scope f" "[]" "[]" fid "file_annotation f"
      "unique_labels st" "annotations st"]
  show ?thesis by simp
qed

lemma setup_loop_annotations:
  "setup_loop d fid files st = Inr st' \<Longrightarrow>
   \<exists>new. annotations st' = annotations st @ new
     \<and> list_all (\<lambda>r. fid \<le> an_file_id r \<and> an_file_id r < fid + length files
          \<and> row_of_file (file_scope (files ! (an_file_id r - fid))) (an_file_id r) r) new"
proof (induction files arbitrary: fid st)
  case Nil
  then show ?case by simp
next
  case (Cons f fs)
  from Cons.prems obtain st1 where s1: "setup_file d st fid f = Inr st1"
    and s2: "setup_loop d (Suc fid) fs st1 = Inr st'"
    by (auto split: sum.splits)
  from setup_file_annotations[OF s1] obtain n1 where
    n1: "annotations st1 = annotations st @ n1"
      "list_all (row_of_file (file_scope f) fid) n1"
    by blast
  from Cons.IH[OF s2] obtain n2 where
    n2: "annotations st' = annotations st1 @ n2"
      "list_all (\<lambda>r. Suc fid \<le> an_file_id r \<and> an_file_id r < Suc fid + length fs
          \<and> row_of_file (file_scope (fs ! (an_file_id r - Suc fid))) (an_file_id r) r) n2"
    by blast
  have "annotations st' = annotations st @ (n1 @ n2)" using n1(1) n2(1) by simp
  moreover have "list_all (\<lambda>r. fid \<le> an_file_id r \<and> an_file_id r < fid + length (f # fs)
          \<and> row_of_file (file_scope ((f # fs) ! (an_file_id r - fid))) (an_file_id r) r) n1"
    using n1(2) by (auto simp: list_all_iff row_of_file_def)
  moreover have "list_all (\<lambda>r. fid \<le> an_file_id r \<and> an_file_id r < fid + length (f # fs)
          \<and> row_of_file (file_scope ((f # fs) ! (an_file_id r - fid))) (an_file_id r) r) n2"
    using n2(2) by (auto simp: list_all_iff nth_Cons')
  ultimately show ?case by (intro exI[of _ "n1 @ n2"]) simp
qed

text \<open>
  Claim C9.  Every annotation row of a successful \<^verbatim>\<open>setup\<close> belongs to a
  file of the corpus; its file-scope index is non-negative; its database-scope
  index is non-negative exactly when that file's scope is database and its
  global-scope index exactly when the scope is global; both are \<open>-1\<close> for scope
  file, and in every case at least one of the two is \<open>-1\<close>.
\<close>

theorem label_indices_follow_scope:
  assumes "task_setup has_validation d train development = Inr st"
    and "r \<in> set (annotations st)"
  shows "an_file_id r < length (files_iter has_validation train development)
       \<and> 0 \<le> file_label_idx r
       \<and> (0 \<le> database_label_idx r) =
           (file_scope (files_iter has_validation train development ! an_file_id r)
              = ScopeDatabase)
       \<and> (0 \<le> global_label_idx r) =
           (file_scope (files_iter has_validation train development ! an_file_id r)
              = ScopeGlobal)
       \<and> (file_scope (files_iter has_validation train development ! an_file_id r)
              = ScopeFile
            \<longrightarrow> database_label_idx r = - 1 \<and> global_label_idx r = - 1)
       \<and> (database_label_idx r = - 1 \<or> global_label_idx r = - 1)"
proof -
  let ?files = "files_iter has_validation train development"
  from assms(1) obtain st0 where l: "setup_loop d 0 ?files initial_state = Inr st0"
    and v: "if has_validation then setup_validation d st0 = Inr st else st = st0"
    by (rule task_setup_loop)
  from v have k: "annotations st = annotations st0"
    by (auto dest: setup_validation_fields split: if_splits)
  from setup_loop_annotations[OF l] k assms(2)
  have "an_file_id r < length ?files" and "scope_indices_ok (file_scope (?files ! an_file_id r)) r"
    by (auto simp: initial_state_def list_all_iff row_of_file_def)
  then show ?thesis
    by (cases "file_scope (?files ! an_file_id r)") (simp_all add: scope_indices_ok_def)
qed

theorem label_indices_follow_scope_witness:
  "\<exists>st. task_setup False 4 [file_spk1_spk2, file_spk2] [] = Inr st
     \<and> \<lparr>an_file_id = 1, an_start = 1, an_end = 9, file_label_idx = 0,
         database_label_idx = 0, global_label_idx = - 1\<rparr> \<in> set (annotations st)
     \<and> file_scope ([file_spk1_spk2, file_spk2] ! 1) = ScopeDatabase"
proof -
  let ?r = "\<lparr>an_file_id = 1, an_start = 1, an_end = 9, file_label_idx = 0,
         database_label_idx = 0, global_label_idx = - 1\<rparr>"
  have "\<exists>st. task_setup False 4 [file_spk1_spk2, file_spk2] [] = Inr st
          \<and> ?r \<in> set (annotations st)"
    by (simp add: file_spk1_spk2_def file_spk2_def eval_setup)
  then obtain st where h: "task_setup False 4 [file_spk1_spk2, file_spk2] [] = Inr st"
    and m: "?r \<in> set (annotations st)" by blast
  from label_indices_follow_scope[OF h m]
  have "file_scope ([file_spk1_spk2, file_spk2] ! 1) = ScopeDatabase"
    by (simp add: files_iter_def)
  with h m show ?thesis by blast
qed

text \<open>
  What the source does at scope database: since \<^verbatim>\<open>database_unique_labels\<close>
  is emptied at the start of every file, the database-scope index of a row is
  always its file-scope index.
\<close>

lemma database_index_is_file_index:
  assumes "task_setup has_validation d train development = Inr st"
    and "r \<in> set (annotations st)"
    and "file_scope (files_iter has_validation train development ! an_file_id r)
           = ScopeDatabase"
  shows "database_label_idx r = file_label_idx r"
proof -
  let ?files = "files_iter has_validation train development"
  from assms(1) obtain st0 where l: "setup_loop d 0 ?files initial_state = Inr st0"
    and v: "if has_validation then setup_validation d st0 = Inr st else st = st0"
    by (rule task_setup_loop)
  from v have k: "annotations st = annotations st0"
    by (auto dest: setup_validation_fields split: if_splits)
  from setup_loop_annotations[OF l] k assms(2)
  have "row_of_file (file_scope (?files ! an_file_id r)) (an_file_id r) r"
    by (auto simp: initial_state_def list_all_iff)
  with assms(3) show ?thesis by (simp add: row_of_file_def)
qed

text \<open>
  Claim C1 (the source departs from it).  Two files of scope database carry the
  label \<open>spk2\<close>.  In the first file \<open>spk1\<close> comes first, so \<open>spk2\<close> gets the
  database-scope index 1 there; in the second file the list has been emptied
  and \<open>spk2\<close> gets the index 0.  The rows are listed as (file, start, database
  index).
\<close>

theorem database_index_differs_across_files:
  "(case task_setup False 4 [file_spk1_spk2, file_spk2] [] of
      Inl e \<Rightarrow> []
    | Inr st \<Rightarrow> map (\<lambda>r. (an_file_id r, an_start r, database_label_idx r)) (annotations st))
   = [(0, 2, 0), (0, 5, 1), (1, 1, 0)]"
  by (simp add: file_spk1_spk2_def file_spk2_def eval_setup)

section \<open>Properties of setup: metadata columns\<close>









lemma metadata_column_scope:
  "keys_prefix (metadata_unique_values st) \<Longrightarrow>
   metadata_column st ''scope'' = Inr (map (\<lambda>row. row ! 0) (metadata st))"
  by (auto simp: keys_prefix_def metadata_column_def index_def)



section \<open>Properties of setup: validation tiling\<close>












lemma tiles_within:
  assumes "0 < d" "c \<in> set (tiles d i start x)"
  shows "ch_file_id c = i \<and> ch_duration c = d \<and> start \<le> ch_start c \<and> ch_start c + d \<le> start + x"
proof -
  from assms(2) obtain k where k: "k < nat \<lfloor>x / d\<rfloor>"
    and c: "c = \<lparr>ch_file_id = i, ch_start = start + real k * d, ch_duration = d\<rparr>"
    by (auto simp: tiles_def)
  from k have "real (Suc k) \<le> real_of_int \<lfloor>x / d\<rfloor>" by linarith
  also have "\<dots> \<le> x / d" by simp
  finally have "real (Suc k) * d \<le> x" using assms(1) by (simp add: pos_le_divide_eq)
  moreover have "0 \<le> real k * d" using assms(1) by simp
  ultimately show ?thesis unfolding c by (simp add: algebra_simps)
qed

lemma tiles_remainder:
  assumes "0 < d" "0 \<le> x"
  shows "x - real (length (tiles d i start x)) * d < d"
proof -
  from assms have "0 \<le> x / d" by simp
  then have f: "0 \<le> \<lfloor>x / d\<rfloor>" by simp
  have lt: "x / d < real_of_int \<lfloor>x / d\<rfloor> + 1" by linarith
  have "x = (x / d) * d" using assms(1) by simp
  also have "\<dots> < (real_of_int \<lfloor>x / d\<rfloor> + 1) * d"
    by (rule mult_strict_right_mono[OF lt assms(1)])
  finally have "x < (real_of_int \<lfloor>x / d\<rfloor> + 1) * d" .
  moreover have "real (length (tiles d i start x)) = real_of_int \<lfloor>x / d\<rfloor>"
    using f by (simp add: tiles_def)
  ultimately show ?thesis by (simp add: algebra_simps)
qed



section \<open>Properties of prepare_chunk\<close>





lemma index_less: "x \<in> set xs \<Longrightarrow> index xs x < length xs"
  unfolding index_def by (induction xs) auto

lemma index_nth_distinct: "distinct xs \<Longrightarrow> j < length xs \<Longrightarrow> index xs (xs ! j) = j"
  unfolding index_def
proof (induction xs arbitrary: j)
  case Nil
  then show ?case by simp
next
  case (Cons x xs)
  then show ?case by (cases j) auto
qed

lemma nth_index: "x \<in> set xs \<Longrightarrow> xs ! index xs x = x"
  unfolding index_def by (induction xs) auto











lemma setup_two_files:
  "task_setup False 4 [file_spk1_spk2, file_spk2] [] = Inr state_two_files"
  by (simp add: file_spk1_spk2_def file_spk2_def state_two_files_def eval_setup)








section \<open>Properties of collate_y\<close>

lemma index_Cons: "index (x # xs) y = (if x = y then 0 else Suc (index xs y))"
  by (simp add: index_def)

lemma label_loop_ok:
  assumes "length data = nf" "length Yi = nf"
    and "\<forall>row \<in> set data. k + length ls \<le> length row"
    and "\<forall>row \<in> set Yi. length row = length U"
    and "set ls \<subseteq> set U" "distinct U" "distinct ls"
  shows "\<exists>Y'. label_loop U data k ls Yi = Inr Y' \<and> length Y' = nf
    \<and> (\<forall>f < nf. length (Y' ! f) = length U
         \<and> (\<forall>g < length U. Y' ! f ! g =
               (if U ! g \<in> set ls then data ! f ! (k + index ls (U ! g)) else Yi ! f ! g)))"
  using assms
proof (induction ls arbitrary: k Yi)
  case Nil
  then show ?case by simp
next
  case (Cons l ls)
  let ?col = "map (\<lambda>row. row ! k) data"
  let ?g = "index U l"
  let ?Y1 = "map2 (\<lambda>row v. row[?g := v]) Yi ?col"
  from Cons.prems(3) have c: "column data k = Inr ?col"
    by (auto simp: column_def list_all_iff)
  have a: "assign_column Yi ?g ?col = Inr ?Y1"
    using Cons.prems(1,2) by (simp add: assign_column_def)
  have step: "label_loop U data k (l # ls) Yi = label_loop U data (Suc k) ls ?Y1"
    by (simp add: c a)
  have l1: "length ?Y1 = nf" using Cons.prems(1,2) by simp
  have n1: "?Y1 ! f = (Yi ! f)[?g := data ! f ! k]" if "f < nf" for f
    using that Cons.prems(1,2) by simp
  have w1: "\<forall>row \<in> set ?Y1. length row = length U"
    using Cons.prems(4) by (auto simp: set_zip)
  have p3: "\<forall>row \<in> set data. Suc k + length ls \<le> length row" using Cons.prems(3) by simp
  have p5: "set ls \<subseteq> set U" using Cons.prems(5) by simp
  have p7: "distinct ls" using Cons.prems(7) by simp
  from Cons.IH[OF Cons.prems(1) l1 p3 w1 p5 Cons.prems(6) p7] obtain Y' where
    r: "label_loop U data (Suc k) ls ?Y1 = Inr Y'" "length Y' = nf"
    and q: "\<forall>f < nf. length (Y' ! f) = length U
         \<and> (\<forall>g < length U. Y' ! f ! g =
               (if U ! g \<in> set ls then data ! f ! (Suc k + index ls (U ! g)) else ?Y1 ! f ! g))"
    by blast
  have lU: "l \<in> set U" using Cons.prems(5) by simp
  have lnot: "l \<notin> set ls" using Cons.prems(7) by simp
  have "Y' ! f ! g =
      (if U ! g \<in> set (l # ls) then data ! f ! (k + index (l # ls) (U ! g)) else Yi ! f ! g)"
    if f: "f < nf" and g: "g < length U" for f g
  proof -
    have rowlen: "length (Yi ! f) = length U" using Cons.prems(2,4) f by simp
    from q f g have e: "Y' ! f ! g =
        (if U ! g \<in> set ls then data ! f ! (Suc k + index ls (U ! g)) else ?Y1 ! f ! g)"
      by blast
    show ?thesis
    proof (cases "U ! g = l")
      case True
      then have "?g = g" using index_nth_distinct[OF Cons.prems(6) g] by simp
      then have "?Y1 ! f ! g = data ! f ! k" using n1[OF f] rowlen g by simp
      with e True lnot show ?thesis by (simp add: index_Cons)
    next
      case False
      then have "?g \<noteq> g" using nth_index[OF lU] by auto
      then have "?Y1 ! f ! g = Yi ! f ! g" using n1[OF f] by simp
      with e False show ?thesis by (auto simp: index_Cons)
    qed
  qed
  moreover have "\<forall>f < nf. length (Y' ! f) = length U" using q by blast
  ultimately show ?case using r step by simp
qed


lemma label_loop_remapped:
  assumes "sample_ok nf b" "set (y_labels b) \<subseteq> set U" "distinct U"
  shows "label_loop U (y_data b) 0 (y_labels b) (replicate nf (replicate (length U) 0))
         = Inr (remapped U nf b)"
proof -
  let ?Z = "replicate nf (replicate (length U) (0::nat))"
  from assms(1) have len: "length (y_data b) = nf"
    and rows: "\<forall>row \<in> set (y_data b). 0 + length (y_labels b) \<le> length row"
    and dist: "distinct (y_labels b)"
    by (auto simp: sample_ok_def list_all_iff)
  have z1: "length ?Z = nf" by simp
  have z2: "\<forall>row \<in> set ?Z. length row = length U" by simp
  from label_loop_ok[OF len z1 rows z2 assms(2,3) dist] obtain Y' where
    r: "label_loop U (y_data b) 0 (y_labels b) ?Z = Inr Y'" and l: "length Y' = nf"
    and q: "\<forall>f < nf. length (Y' ! f) = length U
         \<and> (\<forall>g < length U. Y' ! f ! g =
               (if U ! g \<in> set (y_labels b)
                then y_data b ! f ! (0 + index (y_labels b) (U ! g)) else ?Z ! f ! g))"
    by blast
  have "Y' = remapped U nf b"
  proof (rule nth_equalityI)
    show "length Y' = length (remapped U nf b)" by (simp add: l remapped_def)
  next
    fix f assume "f < length Y'"
    then have f: "f < nf" using l by simp
    show "Y' ! f = remapped U nf b ! f"
    proof (rule nth_equalityI)
      show "length (Y' ! f) = length (remapped U nf b ! f)"
        using q f by (simp add: remapped_def)
    next
      fix g assume "g < length (Y' ! f)"
      then have g: "g < length U" using q f by simp
      from q f g have "Y' ! f ! g =
               (if U ! g \<in> set (y_labels b)
                then y_data b ! f ! (0 + index (y_labels b) (U ! g)) else ?Z ! f ! g)"
        by blast
      then show "Y' ! f ! g = remapped U nf b ! f ! g"
        using f g by (simp add: remapped_def)
    qed
  qed
  with r show ?thesis by simp
qed

lemma batch_loop_remapped:
  assumes "\<forall>b \<in> set batch. sample_ok nf b \<and> set (y_labels b) \<subseteq> set U" "distinct U"
  shows "batch_loop U nf batch = Inr (map (remapped U nf) batch)"
  using assms
  by (induction batch) (simp_all add: label_loop_remapped)

lemma common_labels_set: "set (common_labels batch) = (\<Union>b \<in> set batch. set (y_labels b))"
  by (simp add: common_labels_def)

lemma common_labels_sorted: "sorted_wrt (<) (common_labels batch)"
  by (simp add: common_labels_def strict_sorted_iff)

text \<open>
  Claim C5.  For a non-empty batch of samples with as many frames as the first
  one, one column per local label and no local label twice, \<^verbatim>\<open>collate_y\<close>
  returns one block per sample; the unified labels are strictly increasing and
  are the union of the local labels; and in the block of a sample the column of
  a unified label holds the sample's own column of that label, or zeros when
  the sample does not have the label.
\<close>

theorem collate_unifies_labels:
  assumes "batch \<noteq> []"
    and "\<forall>b \<in> set batch. sample_ok (length (y_data (hd batch))) b"
  shows "collate_y batch =
           Inr (map (remapped (common_labels batch) (length (y_data (hd batch)))) batch)
       \<and> sorted_wrt (<) (common_labels batch)
       \<and> set (common_labels batch) = (\<Union>b \<in> set batch. set (y_labels b))"
proof -
  from assms(1) obtain b0 rest where b: "batch = b0 # rest" by (cases batch) auto
  have d: "distinct (common_labels batch)" by (simp add: common_labels_def)
  have "\<forall>b \<in> set batch. sample_ok (length (y_data (hd batch))) b
          \<and> set (y_labels b) \<subseteq> set (common_labels batch)"
    using assms(2) by (auto simp: common_labels_set)
  from batch_loop_remapped[OF this d]
  have "collate_y batch =
      Inr (map (remapped (common_labels batch) (length (y_data (hd batch)))) batch)"
    by (simp add: collate_y_def b)
  then show ?thesis using common_labels_sorted common_labels_set by blast
qed

theorem collate_unifies_labels_witness:
  "collate_y [sample_A, sample_B] = Inr [[[1, 0], [0, 0]], [[0, 0], [0, 1]]]
   \<and> common_labels [sample_A, sample_B] = [3, 7]"
proof -
  have n: "[sample_A, sample_B] \<noteq> []" by simp
  have ok: "\<forall>b \<in> set [sample_A, sample_B]. sample_ok (length (y_data (hd [sample_A, sample_B]))) b"
    by (simp add: sample_ok_def sample_A_def sample_B_def)
  have c: "common_labels [sample_A, sample_B] = [3, 7]"
    by (simp add: common_labels_def sample_A_def sample_B_def)
  have nf: "length (y_data (hd [sample_A, sample_B])) = 2" by (simp add: sample_A_def)
  from collate_unifies_labels[OF n ok] have "collate_y [sample_A, sample_B] =
      Inr (map (remapped (common_labels [sample_A, sample_B])
             (length (y_data (hd [sample_A, sample_B])))) [sample_A, sample_B])"
    by blast
  then have "collate_y [sample_A, sample_B] =
      Inr (map (remapped [3, 7] 2) [sample_A, sample_B])"
    unfolding c nf .
  also have "map (remapped [3, 7] 2) [sample_A, sample_B] = [[[1, 0], [0, 0]], [[0, 0], [0, 1]]]"
    by (simp add: remapped_def sample_A_def sample_B_def index_def upt_rec)
  finally show ?thesis using c by simp
qed

section \<open>Properties of the training sampler\<close>


















lemma balanced_never_yields:
  "fst (train_iter st d (Some keys) rounds) = []"
  by (simp add: train_iter_def split: sum.splits)

lemma balanced_raises:
  assumes "rounds \<noteq> []"
  shows "\<exists>e. train_iter st d (Some keys) rounds = ([], Some e)"
  using assms by (simp add: train_iter_def split: sum.splits)

lemma balanced_type_error:
  assumes "rounds \<noteq> []" "keys \<noteq> []"
  shows "train_iter st d (Some keys) rounds = ([], Some (TypeError ''unhashable type: list''))"
proof -
  from assms(2) obtain k ks where k: "keys = k # ks" by (cases keys) auto
  show ?thesis using assms(1) by (simp add: train_iter_def k balance_values_def)
qed






lemma setup_domains: "task_setup False 4 [file_two_regions, file_radio] [] = Inr state_domains"
  by (simp add: file_two_regions_def file_radio_def state_domains_def eval_setup)









text \<open>
  Claim C2 (the source departs from it).  Balancing on \<open>domain\<close>, with the
  two values \<open>tv\<close> and \<open>radio\<close>: the first item asked of the generator
  raises \<^verbatim>\<open>TypeError\<close>, the key of the first sub-sampler being a tuple
  that holds a list; no sub-sampler is stored and no chunk is drawn.
\<close>

theorem balanced_mode_type_error:
  "train_iter state_domains 4 (Some [''domain'']) [(0, [(0, 0)])]
     = ([], Some (TypeError ''unhashable type: list''))"
  by (simp add: train_iter_def balance_values_def)

end
